theory Spec2Isabelle
  imports Main "HOL-Library.Sublist"
begin

section \<open>Python strings and exceptions\<close>

text \<open>
  A Python \<^verbatim>\<open>str\<close> is a sequence of code points. A \<^typ>\<open>char\<close> of this theory stands
  for one code point below 256, so a \<^typ>\<open>string\<close> is a Python string over that range.
  The character tests below are the tables of \<^verbatim>\<open>str.isalnum\<close>, \<^verbatim>\<open>str.isspace\<close> and
  \<^verbatim>\<open>str.lower\<close> on code points 0 to 255.
\<close>

definition isalnum :: "char \<Rightarrow> bool" where
  "isalnum c =
     (let n = (of_char c :: nat) in
        (48 \<le> n \<and> n \<le> 57) \<or> (65 \<le> n \<and> n \<le> 90) \<or> (97 \<le> n \<and> n \<le> 122) \<or>
        n = 170 \<or> n = 178 \<or> n = 179 \<or> n = 181 \<or> n = 185 \<or> n = 186 \<or>
        (188 \<le> n \<and> n \<le> 190) \<or> (192 \<le> n \<and> n \<le> 214) \<or> (216 \<le> n \<and> n \<le> 246) \<or>
        (248 \<le> n \<and> n \<le> 255))"

definition isspace :: "char \<Rightarrow> bool" where
  "isspace c =
     (let n = (of_char c :: nat) in
        (9 \<le> n \<and> n \<le> 13) \<or> (28 \<le> n \<and> n \<le> 32) \<or> n = 133 \<or> n = 160)"

definition isupper :: "char \<Rightarrow> bool" where
  "isupper c =
     (let n = (of_char c :: nat) in
        (65 \<le> n \<and> n \<le> 90) \<or> (192 \<le> n \<and> n \<le> 214) \<or> (216 \<le> n \<and> n \<le> 222))"

definition lower_char :: "char \<Rightarrow> char" where
  "lower_char c = (if isupper c then char_of (of_char c + (32 :: nat)) else c)"

definition lower :: "string \<Rightarrow> string" where
  "lower s = map lower_char s"

definition rstrip :: "string \<Rightarrow> string" where
  "rstrip s = rev (dropWhile isspace (rev s))"

definition strip :: "string \<Rightarrow> string" where
  "strip s = dropWhile isspace (rstrip s)"

text \<open>\<^verbatim>\<open>s.split(sep)\<close> for a one-character separator: never the empty list.\<close>

fun split_on :: "char \<Rightarrow> string \<Rightarrow> string list" where
  "split_on sep [] = [[]]"
| "split_on sep (c # cs) =
     (if c = sep then [] # split_on sep cs
      else (case split_on sep cs of
              [] \<Rightarrow> [[c]]
            | w # ws \<Rightarrow> (c # w) # ws))"

text \<open>\<^verbatim>\<open>sub in s\<close> on strings.\<close>

fun startswith :: "string \<Rightarrow> string \<Rightarrow> bool" where
  "startswith s [] = True"
| "startswith [] (p # ps) = False"
| "startswith (c # cs) (p # ps) = (c = p \<and> startswith cs ps)"

fun contains :: "string \<Rightarrow> string \<Rightarrow> bool" where
  "contains [] sub = (sub = [])"
| "contains (c # cs) sub = (startswith (c # cs) sub \<or> contains cs sub)"

text \<open>\<^verbatim>\<open>str(x)\<close> of a value that is a string or \<^verbatim>\<open>None\<close>, as an f-string formats it.\<close>

definition format_str :: "string option \<Rightarrow> string" where
  "format_str v = (case v of None \<Rightarrow> ''None'' | Some s \<Rightarrow> s)"

text \<open>\<^verbatim>\<open>os.path.join(a, b)\<close> on POSIX, for two components.\<close>

definition os_path_join :: "string \<Rightarrow> string \<Rightarrow> string" where
  "os_path_join a b =
     (if startswith b ''/'' then b
      else if a = [] \<or> last a = CHR ''/'' then a @ b
      else a @ ''/'' @ b)"

datatype py_error =
    ParseError
  | AttributeError
  | KeyError
  | ValueError
  | ConnectionError
  | JSONDecodeError
  | ApiError int string
  | UnexpectedResponse
  | RegexError
  | OSError
  | OverflowError
  | SubprocessError

section \<open>arXiv tool: \<^verbatim>\<open>ArxivScraper\<close>\<close>

subsection \<open>The parsed XML document\<close>

text \<open>
  An \<^verbatim>\<open>xml.etree.ElementTree.Element\<close>: its tag in the \<^verbatim>\<open>{namespace}name\<close> form, its
  attributes, its \<^verbatim>\<open>text\<close> (\<^verbatim>\<open>None\<close> when the element has no character data before
  its first child, as for \<^verbatim>\<open><title/>\<close>) and its children in document order.
  \<^verbatim>\<open>ET.fromstring\<close> raises on a document that is not well-formed.
\<close>

datatype element =
  Element (el_tag: string) (attrib: "(string \<times> string) list") (el_text: "string option")
    (children: "element list")

datatype xml_document = Malformed | Document element

definition atom :: "string \<Rightarrow> string" where
  "atom t = ''{http://www.w3.org/2005/Atom}'' @ t"

definition findall :: "string \<Rightarrow> element \<Rightarrow> element list" where
  "findall t e = filter (\<lambda>c. el_tag c = t) (children e)"

definition find_elem :: "string \<Rightarrow> element \<Rightarrow> element option" where
  "find_elem t e = (case findall t e of [] \<Rightarrow> None | c # cs \<Rightarrow> Some c)"

definition get_attr :: "element \<Rightarrow> string \<Rightarrow> string option" where
  "get_attr e k = map_of (attrib e) k"

subsection \<open>\<^verbatim>\<open>parse_response\<close>\<close>

text \<open>
  The \<^verbatim>\<open>paper\<close> dictionary. The keys \<^verbatim>\<open>arxiv_id\<close> and \<^verbatim>\<open>pdf_url\<close> may be missing
  (\<open>None\<close>); a present \<^verbatim>\<open>pdf_url\<close> holds what \<^verbatim>\<open>link.get('href')\<close> returned, which is
  \<^verbatim>\<open>None\<close> for a link without that attribute. An author's entry is the \<^verbatim>\<open>text\<close> of
  its name element.
\<close>

record paper =
  title :: string
  authors :: "string option list"
  summary :: string
  arxiv_id :: "string option"
  pdf_url :: "string option option"

text \<open>\<^verbatim>\<open>elem.text.strip()\<close>: an \<^verbatim>\<open>AttributeError\<close> when the text is \<^verbatim>\<open>None\<close>.\<close>

definition text_strip :: "element \<Rightarrow> py_error + string" where
  "text_strip e = (case el_text e of None \<Rightarrow> Inl AttributeError | Some t \<Rightarrow> Inr (strip t))"

definition entry_title :: "element \<Rightarrow> py_error + string" where
  "entry_title entry =
     (case find_elem (atom ''title'') entry of
        Some title_elem \<Rightarrow> text_strip title_elem
      | None \<Rightarrow> Inr ''Unknown Title'')"

fun author_names :: "element list \<Rightarrow> string option list" where
  "author_names [] = []"
| "author_names (author # rest) =
     (case find_elem (atom ''name'') author of
        Some name_elem \<Rightarrow> el_text name_elem # author_names rest
      | None \<Rightarrow> author_names rest)"

definition entry_summary :: "element \<Rightarrow> py_error + string" where
  "entry_summary entry =
     (case find_elem (atom ''summary'') entry of
        Some summary_elem \<Rightarrow> text_strip summary_elem
      | None \<Rightarrow> Inr '''')"

definition entry_arxiv_id :: "element \<Rightarrow> py_error + string option" where
  "entry_arxiv_id entry =
     (case find_elem (atom ''id'') entry of
        Some id_elem \<Rightarrow>
          (case el_text id_elem of
             None \<Rightarrow> Inl AttributeError
           | Some t \<Rightarrow> Inr (Some (last (split_on (CHR ''/'') t))))
      | None \<Rightarrow> Inr None)"

fun first_pdf_link :: "element list \<Rightarrow> string option option" where
  "first_pdf_link [] = None"
| "first_pdf_link (link # rest) =
     (if get_attr link ''type'' = Some ''application/pdf'' then Some (get_attr link ''href'')
      else first_pdf_link rest)"

definition parse_entry :: "element \<Rightarrow> py_error + paper" where
  "parse_entry entry =
     (case entry_title entry of
        Inl e \<Rightarrow> Inl e
      | Inr t \<Rightarrow>
          (case entry_summary entry of
             Inl e \<Rightarrow> Inl e
           | Inr s \<Rightarrow>
               (case entry_arxiv_id entry of
                  Inl e \<Rightarrow> Inl e
                | Inr i \<Rightarrow>
                    Inr \<lparr>title = t,
                         authors = author_names (findall (atom ''author'') entry),
                         summary = s,
                         arxiv_id = i,
                         pdf_url = first_pdf_link (findall (atom ''link'') entry)\<rparr>)))"

fun parse_entries :: "element list \<Rightarrow> py_error + paper list" where
  "parse_entries [] = Inr []"
| "parse_entries (entry # rest) =
     (case parse_entry entry of
        Inl e \<Rightarrow> Inl e
      | Inr p \<Rightarrow>
          (case parse_entries rest of
             Inl e \<Rightarrow> Inl e
           | Inr ps \<Rightarrow> Inr (p # ps)))"

definition parse_response :: "xml_document \<Rightarrow> py_error + paper list" where
  "parse_response xml_content =
     (case xml_content of
        Malformed \<Rightarrow> Inl ParseError
      | Document root \<Rightarrow> parse_entries (findall (atom ''entry'') root))"

subsection \<open>\<^verbatim>\<open>download_paper\<close>\<close>

definition safe_char :: "char \<Rightarrow> bool" where
  "safe_char c = (isalnum c \<or> c = CHR '' '' \<or> c = CHR ''-'' \<or> c = CHR ''_'')"

text \<open>The two assignments to \<^verbatim>\<open>safe_title\<close>: filter, \<^verbatim>\<open>rstrip()\<close>, then \<^verbatim>\<open>[:100]\<close>.\<close>

definition safe_title :: "string \<Rightarrow> string" where
  "safe_title t = take 100 (rstrip (filter safe_char t))"

text \<open>
  What the network and the disk answer. \<^verbatim>\<open>requests.get\<close> raises or returns a response
  with a status and a body; opening the file for writing raises, or the write raises after
  leaving some content behind, or the whole body is written. The console records what is
  printed, in order; printing is taken to succeed.
\<close>

datatype http_result = RequestRaises | Response int string

datatype write_result = Written | OpenRaises | WriteRaises string

record arxiv_env =
  http :: "string \<Rightarrow> http_result"
  disk :: "string \<Rightarrow> string \<Rightarrow> write_result"

datatype message =
    PdfLinkNotFound string
  | Downloading string
  | DownloadCompleted string
  | DownloadErrorStatus int
  | DownloadErrorException

record arxiv_world =
  files :: "string \<Rightarrow> string option"
  console :: "message list"
  requested :: "string list"

definition say :: "message \<Rightarrow> arxiv_world \<Rightarrow> arxiv_world" where
  "say m w = w\<lparr>console := console w @ [m]\<rparr>"

definition download_paper ::
  "arxiv_env \<Rightarrow> string \<Rightarrow> paper \<Rightarrow> arxiv_world \<Rightarrow> bool \<times> arxiv_world" where
  "download_paper env download_dir p w =
     (case pdf_url p of
        None \<Rightarrow> (False, say (PdfLinkNotFound (title p)) w)
      | Some url \<Rightarrow>
          (case arxiv_id p of
             None \<Rightarrow> (False, say DownloadErrorException w)
           | Some i \<Rightarrow>
               (let filename = i @ ''_'' @ safe_title (title p) @ ''.pdf'';
                    filepath = os_path_join download_dir filename;
                    w1 = say (Downloading (title p)) w
                in case url of
                     None \<Rightarrow> (False, say DownloadErrorException w1)
                   | Some u \<Rightarrow>
                       (let w2 = w1\<lparr>requested := requested w1 @ [u]\<rparr>
                        in case http env u of
                             RequestRaises \<Rightarrow> (False, say DownloadErrorException w2)
                           | Response status content \<Rightarrow>
                               if status = 200 then
                                 (case disk env filepath content of
                                    Written \<Rightarrow>
                                      (True,
                                       say (DownloadCompleted filename)
                                         (w2\<lparr>files := (files w2)(filepath \<mapsto> content)\<rparr>))
                                  | OpenRaises \<Rightarrow> (False, say DownloadErrorException w2)
                                  | WriteRaises partial \<Rightarrow>
                                      (False,
                                       say DownloadErrorException
                                         (w2\<lparr>files := (files w2)(filepath \<mapsto> partial)\<rparr>)))
                               else (False, say (DownloadErrorStatus status) w2)))))"

subsection \<open>Predicates of the specification and concrete inputs\<close>

text \<open>The character class \<^verbatim>\<open>[A-Za-z0-9 _-]\<close>.\<close>

definition ascii_safe :: "char \<Rightarrow> bool" where
  "ascii_safe c =
     (let n = (of_char c :: nat) in
        (48 \<le> n \<and> n \<le> 57) \<or> (65 \<le> n \<and> n \<le> 90) \<or> (97 \<le> n \<and> n \<le> 122) \<or>
        c = CHR '' '' \<or> c = CHR ''_'' \<or> c = CHR ''-'')"

definition title_cafe :: string where
  "title_cafe = ''Caf'' @ [CHR 0xE9] @ '' society: a survey!  ''"

definition title_long :: string where
  "title_long = replicate 99 (CHR ''a'') @ '' b''"

definition title_many :: string where
  "title_many = replicate 150 (CHR ''a'')"

text \<open>
  An entry whose title, summary and id elements, where present, carry character data.
\<close>

definition has_text :: "string \<Rightarrow> element \<Rightarrow> bool" where
  "has_text t entry = (case find_elem t entry of None \<Rightarrow> True | Some e \<Rightarrow> el_text e \<noteq> None)"

definition texts_present :: "element \<Rightarrow> bool" where
  "texts_present entry =
     (has_text (atom ''title'') entry \<and> has_text (atom ''summary'') entry \<and>
      has_text (atom ''id'') entry)"

definition entry_empty_title :: element where
  "entry_empty_title =
     Element (atom ''entry'') [] None
       [Element (atom ''id'') [] (Some ''http://arxiv.org/abs/2101.00001v1'') [],
        Element (atom ''updated'') [] (Some ''2021-01-01T00:00:00Z'') [],
        Element (atom ''title'') [] None [],
        Element (atom ''summary'') [] (Some ''An abstract.'') [],
        Element (atom ''author'') [] None [Element (atom ''name'') [] (Some ''A. Author'') []],
        Element (atom ''link'')
          [(''href'', ''http://arxiv.org/pdf/2101.00001v1''), (''type'', ''application/pdf'')]
          None []]"

definition feed_empty_title :: element where
  "feed_empty_title =
     Element (atom ''feed'') [] None
       [Element (atom ''id'') [] (Some ''http://arxiv.org/api/query'') [],
        Element (atom ''title'') [] (Some ''ArXiv Query'') [],
        Element (atom ''updated'') [] (Some ''2021-01-01T00:00:00Z'') [],
        entry_empty_title]"

definition entry_full :: element where
  "entry_full =
     Element (atom ''entry'') [] None
       [Element (atom ''id'') [] (Some ''http://arxiv.org/abs/1706.03762v7'') [],
        Element (atom ''title'') [] (Some ''  Attention Is All You Need '') [],
        Element (atom ''summary'') [] (Some '' We propose the Transformer. '') [],
        Element (atom ''author'') [] None [Element (atom ''name'') [] (Some ''A. Vaswani'') []],
        Element (atom ''author'') [] None [],
        Element (atom ''link'') [(''href'', ''http://arxiv.org/abs/1706.03762v7''),
          (''type'', ''text/html'')] None [],
        Element (atom ''link'') [(''href'', ''http://arxiv.org/pdf/1706.03762v7''),
          (''type'', ''application/pdf'')] None [],
        Element (atom ''link'') [(''href'', ''http://mirror.example/1706.03762v7.pdf''),
          (''type'', ''application/pdf'')] None []]"

definition entry_bare :: element where
  "entry_bare = Element (atom ''entry'') [] None []"

definition feed_two :: element where
  "feed_two = Element (atom ''feed'') [] None [entry_full, entry_bare]"

text \<open>
  The file \<^verbatim>\<open>download_paper\<close> writes for a paper with the identifier \<open>i\<close>, and the
  condition under which the specification lets a download succeed: the response to the
  request for the PDF has status 200 and its whole body is written to that file.
\<close>

definition target_path :: "string \<Rightarrow> paper \<Rightarrow> string \<Rightarrow> string" where
  "target_path download_dir p i =
     os_path_join download_dir (i @ ''_'' @ safe_title (title p) @ ''.pdf'')"

definition fetched_and_written :: "arxiv_env \<Rightarrow> string \<Rightarrow> paper \<Rightarrow> bool" where
  "fetched_and_written env download_dir p =
     (case pdf_url p of
        Some (Some u) \<Rightarrow>
          (case arxiv_id p of
             Some i \<Rightarrow>
               (case http env u of
                  Response status content \<Rightarrow>
                    status = 200 \<and> disk env (target_path download_dir p i) content = Written
                | RequestRaises \<Rightarrow> False)
           | None \<Rightarrow> False)
      | Some None \<Rightarrow> False
      | None \<Rightarrow> False)"

definition paper_attention :: paper where
  "paper_attention =
     \<lparr>title = ''Attention Is All You Need'', authors = [Some ''A. Vaswani''],
      summary = ''We propose the Transformer.'', arxiv_id = Some ''1706.03762v7'',
      pdf_url = Some (Some ''http://arxiv.org/pdf/1706.03762v7'')\<rparr>"

definition paper_unknown :: paper where
  "paper_unknown =
     \<lparr>title = ''Unknown Title'', authors = [], summary = '''', arxiv_id = None, pdf_url = None\<rparr>"

definition arxiv_env_ok :: arxiv_env where
  "arxiv_env_ok =
     \<lparr>http = (\<lambda>u. if u = ''http://arxiv.org/pdf/1706.03762v7'' then Response 200 ''%PDF-1.5''
                   else Response 404 ''Not Found''),
      disk = (\<lambda>path content. Written)\<rparr>"

definition arxiv_w0 :: arxiv_world where
  "arxiv_w0 = \<lparr>files = (\<lambda>path. None), console = [], requested = []\<rparr>"

section \<open>GitHub tool\<close>

subsection \<open>Records and the environment\<close>

definition GITHUB_API_BASE :: string where
  "GITHUB_API_BASE = ''https://api.github.com''"

definition API_DEFAULT_PER_PAGE :: int where
  "API_DEFAULT_PER_PAGE = 100"

definition MIN_CLONE_INTERVAL_SECONDS :: int where
  "MIN_CLONE_INTERVAL_SECONDS = 10"

text \<open>
  The dataclass \<^verbatim>\<open>Repo\<close>. The owner is the login found in the item or the
  \<^verbatim>\<open>owner\<close> argument of \<^verbatim>\<open>fetch_all_repos\<close>, which is \<^verbatim>\<open>None\<close> when \<^verbatim>\<open>main\<close>
  was given an empty user name.
\<close>

record Repo =
  owner :: "string option"
  name :: string
  full_name :: string
  ssh_url :: string
  archived :: bool
  description :: "string option"

text \<open>
  One item of a listing page, as the keys \<^verbatim>\<open>fetch_all_repos\<close> reads from it: a field
  is \<open>None\<close> when its key is missing (for the description, also when it is null). The
  login is the value of \<^verbatim>\<open>item["owner"]["login"]\<close>; it is \<open>None\<close> when either key is
  missing. The values have the types the GitHub API documents for them.
\<close>

record item =
  it_login :: "string option"
  it_name :: "string option"
  it_full_name :: "string option"
  it_ssh_url :: "string option"
  it_archived :: "bool option"
  it_description :: "string option"

text \<open>What \<^verbatim>\<open>resp.json()\<close> gives: it raises, or it is not a list, or it is a list of items.\<close>

datatype payload = NotJson | NotAList | ItemList "item list"

text \<open>
  The text of the \<^verbatim>\<open>X-RateLimit-Reset\<close> header, by what \<^verbatim>\<open>int(reset)\<close> makes of it: a
  \<^verbatim>\<open>ValueError\<close> or an integer.
\<close>

datatype header_int = NotAnInt | IntText int

record response =
  status_code :: int
  ratelimit_remaining :: "string option"
  ratelimit_reset :: "header_int option"
  resp_text :: string
  resp_json :: payload

datatype net_outcome = NetRaises | Got response

text \<open>
  The regular-expression engine: whether \<^verbatim>\<open>re.compile\<close> accepts a pattern, and whether
  the compiled pattern's \<^verbatim>\<open>search\<close> finds a match in a text.
\<close>

record regex_engine =
  re_valid :: "string \<Rightarrow> bool"
  re_search :: "string \<Rightarrow> string \<Rightarrow> bool"

text \<open>
  The environment of one run. \<open>net k\<close> is the outcome of the \<open>k\<close>-th call of
  \<^verbatim>\<open>requests.get\<close> (counting from 0) and \<open>clock k\<close> the value of \<^verbatim>\<open>int(time.time())\<close>
  read while that response is handled. The checks and commands of the clone loop are
  indexed by the loop's \<^verbatim>\<open>idx\<close>; \<^verbatim>\<open>subprocess.run\<close> raises or returns the exit code
  of the command. \<open>sleep_refused s\<close> tells whether the operating system refuses a sleep
  of \<open>s\<close> seconds. Writing to the console is taken to succeed.
\<close>

datatype run_result = RunRaises | Exit int

record github_env =
  net :: "nat \<Rightarrow> net_outcome"
  clock :: "nat \<Rightarrow> int"
  git_available :: bool
  makedirs_ok :: bool
  git_dir_exists :: "nat \<Rightarrow> string \<Rightarrow> bool"
  git_clone :: "nat \<Rightarrow> string \<Rightarrow> string \<Rightarrow> run_result"
  git_pull :: "nat \<Rightarrow> string \<Rightarrow> run_result"
  sleep_refused :: "int \<Rightarrow> bool"
  re_engine :: regex_engine

text \<open>The effects of a run, in order: requests (URL and page), sleeps and commands.\<close>

datatype event =
    EvGet string int
  | EvSleep int
  | EvMakedirs string
  | EvGitClone string string
  | EvGitPull string

record world =
  requests_made :: nat
  events :: "event list"

definition emit :: "event \<Rightarrow> world \<Rightarrow> world" where
  "emit e w = w\<lparr>events := events w @ [e]\<rparr>"

text \<open>
  \<^verbatim>\<open>time.sleep(seconds)\<close> for an integer. CPython keeps a duration as a signed 64-bit
  count of nanoseconds and raises \<^verbatim>\<open>OverflowError\<close> for more than 9223372036 seconds; it
  raises \<^verbatim>\<open>ValueError\<close> for a negative duration, and \<^verbatim>\<open>OSError\<close> when the operating
  system refuses the duration. Only a sleep that is accepted takes place.
\<close>

definition SLEEP_MAX :: int where
  "SLEEP_MAX = 9223372036"

definition time_sleep :: "github_env \<Rightarrow> int \<Rightarrow> world \<Rightarrow> py_error + world" where
  "time_sleep env seconds w =
     (if SLEEP_MAX < seconds then Inl OverflowError
      else if seconds < 0 then Inl ValueError
      else if sleep_refused env seconds then Inl OSError
      else Inr (emit (EvSleep seconds) w))"

subsection \<open>Listing\<close>

definition build_repos_endpoint :: "string option \<Rightarrow> bool \<Rightarrow> string" where
  "build_repos_endpoint own is_org =
     (if is_org then GITHUB_API_BASE @ ''/orgs/'' @ format_str own @ ''/repos''
      else GITHUB_API_BASE @ ''/users/'' @ format_str own @ ''/repos'')"

text \<open>
  \<^verbatim>\<open>request_with_rate_limit\<close>. Of \<^verbatim>\<open>params\<close> only the page changes between calls, so the
  page stands for it. The loop has no bound of its own: it runs for as long as the
  answers are rate-limit responses, and then the function has no result (\<open>None\<close>).
  An exception of \<^verbatim>\<open>time.sleep\<close> leaves the function like any other.
\<close>

partial_function (option) request_with_rate_limit ::
  "github_env \<Rightarrow> string \<Rightarrow> int \<Rightarrow> world \<Rightarrow> ((py_error + response) \<times> world) option" where
  "request_with_rate_limit env url page w =
     (let k = requests_made w;
          w1 = emit (EvGet url page) (w\<lparr>requests_made := k + 1\<rparr>)
      in case net env k of
           NetRaises \<Rightarrow> Some (Inl ConnectionError, w1)
         | Got resp \<Rightarrow>
             if status_code resp = 403 \<and> ratelimit_remaining resp = Some ''0'' then
               (case ratelimit_reset resp of
                  Some (IntText reset_epoch) \<Rightarrow>
                    (let sleep_seconds = max 1 (reset_epoch - clock env k + 2)
                     in case time_sleep env sleep_seconds w1 of
                          Inl e \<Rightarrow> Some (Inl e, w1)
                        | Inr w2 \<Rightarrow> request_with_rate_limit env url page w2)
                | Some NotAnInt \<Rightarrow> Some (Inl ValueError, w1)
                | None \<Rightarrow>
                    if status_code resp \<ge> 400
                    then Some (Inl (ApiError (status_code resp) (resp_text resp)), w1)
                    else Some (Inr resp, w1))
             else if status_code resp \<ge> 400
             then Some (Inl (ApiError (status_code resp) (resp_text resp)), w1)
             else Some (Inr resp, w1))"

declare request_with_rate_limit.simps [code]

definition to_repo :: "string option \<Rightarrow> item \<Rightarrow> Repo" where
  "to_repo own it =
     \<lparr>owner = (case it_login it of Some l \<Rightarrow> Some l | None \<Rightarrow> own),
      name = (case it_name it of Some n \<Rightarrow> n | None \<Rightarrow> ''''),
      full_name = (case it_full_name it of Some f \<Rightarrow> f | None \<Rightarrow> format_str own @ ''/unknown''),
      ssh_url =
        (case it_ssh_url it of
           Some u \<Rightarrow> u
         | None \<Rightarrow> ''git@github.com:'' @ format_str own @ ''/unknown.git''),
      archived = (case it_archived it of Some b \<Rightarrow> b | None \<Rightarrow> False),
      description = it_description it\<rparr>"

text \<open>The \<^verbatim>\<open>while True\<close> loop of \<^verbatim>\<open>fetch_all_repos\<close>, from a page and the list so far.\<close>

partial_function (option) fetch_pages ::
  "github_env \<Rightarrow> string option \<Rightarrow> string \<Rightarrow> int \<Rightarrow> Repo list \<Rightarrow> world \<Rightarrow>
     ((py_error + Repo list) \<times> world) option" where
  "fetch_pages env own url page repos w =
     Option.bind (request_with_rate_limit env url page w)
       (\<lambda>(r, w1).
          case r of
            Inl e \<Rightarrow> Some (Inl e, w1)
          | Inr resp \<Rightarrow>
              (case resp_json resp of
                 NotJson \<Rightarrow> Some (Inl JSONDecodeError, w1)
               | NotAList \<Rightarrow> Some (Inl UnexpectedResponse, w1)
               | ItemList data \<Rightarrow>
                   if length data = 0 then Some (Inr repos, w1)
                   else fetch_pages env own url (page + 1) (repos @ map (to_repo own) data) w1))"

declare fetch_pages.simps [code]

definition fetch_all_repos ::
  "github_env \<Rightarrow> string option \<Rightarrow> bool \<Rightarrow> world \<Rightarrow> ((py_error + Repo list) \<times> world) option" where
  "fetch_all_repos env own is_org w =
     fetch_pages env own (build_repos_endpoint own is_org) 1 [] w"

subsection \<open>Filtering\<close>

text \<open>
  An optional string is false in a condition when it is \<^verbatim>\<open>None\<close> or empty, so
  \<^verbatim>\<open>r.description or ''\<close> is the description, or the empty string for \<^verbatim>\<open>None\<close>.
\<close>

definition text_blob :: "Repo \<Rightarrow> string" where
  "text_blob r =
     name r @ [CHR 0x0A] @ full_name r @ [CHR 0x0A] @
     (case description r of Some d \<Rightarrow> d | None \<Rightarrow> '''')"

text \<open>
  The body of the loop after the archived test: the three assignments to
  \<^verbatim>\<open>matched\<close>, in the source's order. \<open>compiled_regex\<close> is the pattern that was
  compiled, if any.
\<close>

definition repo_matched ::
  "regex_engine \<Rightarrow> string option \<Rightarrow> string option \<Rightarrow> Repo \<Rightarrow> bool" where
  "repo_matched re match_substring compiled_regex r =
     (let matched0 = False;
          matched1 =
            (case match_substring of
               Some s \<Rightarrow>
                 if s \<noteq> [] \<and> contains (lower (text_blob r)) (lower s) then True else matched0
             | None \<Rightarrow> matched0);
          matched2 =
            (case compiled_regex of
               Some p \<Rightarrow> if \<not> matched1 \<and> re_search re p (text_blob r) then True else matched1
             | None \<Rightarrow> matched1);
          matched3 =
            (if match_substring = None \<and> compiled_regex = None then True else matched2)
      in matched3)"

fun filter_loop ::
  "regex_engine \<Rightarrow> string option \<Rightarrow> string option \<Rightarrow> bool \<Rightarrow> Repo list \<Rightarrow> Repo list \<Rightarrow>
     Repo list" where
  "filter_loop re match_substring compiled_regex include_archived [] filtered = filtered"
| "filter_loop re match_substring compiled_regex include_archived (r # rest) filtered =
     (if \<not> include_archived \<and> archived r
      then filter_loop re match_substring compiled_regex include_archived rest filtered
      else if repo_matched re match_substring compiled_regex r
      then filter_loop re match_substring compiled_regex include_archived rest (filtered @ [r])
      else filter_loop re match_substring compiled_regex include_archived rest filtered)"

definition filter_repos ::
  "regex_engine \<Rightarrow> Repo list \<Rightarrow> string option \<Rightarrow> string option \<Rightarrow> bool \<Rightarrow> bool \<Rightarrow>
     py_error + Repo list" where
  "filter_repos re repos match_substring match_regex include_archived include_forks =
     (case match_regex of
        Some p \<Rightarrow>
          if p \<noteq> [] then
            (if re_valid re p
             then Inr (filter_loop re match_substring (Some p) include_archived repos [])
             else Inl RegexError)
          else Inr (filter_loop re match_substring None include_archived repos [])
      | None \<Rightarrow> Inr (filter_loop re match_substring None include_archived repos []))"

subsection \<open>Cloning and \<^verbatim>\<open>main\<close>\<close>

text \<open>
  \<^verbatim>\<open>run_git_clone\<close> and \<^verbatim>\<open>run_git_pull\<close>: the command is started; the result is the
  exception of \<^verbatim>\<open>subprocess.run\<close> or the exit code.
\<close>

definition run_git_clone ::
  "github_env \<Rightarrow> nat \<Rightarrow> string \<Rightarrow> string \<Rightarrow> world \<Rightarrow> (py_error + int) \<times> world" where
  "run_git_clone env idx url dest_dir w =
     (case git_clone env idx url dest_dir of
        RunRaises \<Rightarrow> (Inl SubprocessError, emit (EvGitClone url dest_dir) w)
      | Exit code \<Rightarrow> (Inr code, emit (EvGitClone url dest_dir) w))"

definition run_git_pull ::
  "github_env \<Rightarrow> nat \<Rightarrow> string \<Rightarrow> world \<Rightarrow> (py_error + int) \<times> world" where
  "run_git_pull env idx dest_dir w =
     (case git_pull env idx dest_dir of
        RunRaises \<Rightarrow> (Inl SubprocessError, emit (EvGitPull dest_dir) w)
      | Exit code \<Rightarrow> (Inr code, emit (EvGitPull dest_dir) w))"

definition throttle_sleep :: "github_env \<Rightarrow> int \<Rightarrow> world \<Rightarrow> py_error + world" where
  "throttle_sleep env seconds w = time_sleep env (max MIN_CLONE_INTERVAL_SECONDS seconds) w"

text \<open>
  The parsed command line. \<^verbatim>\<open>--user\<close> and \<^verbatim>\<open>--org\<close> are a required, mutually
  exclusive group, so exactly one of them is given.
\<close>

datatype target = User string | Org string

record args =
  arg_target :: target
  arg_match :: "string option"
  arg_regex :: "string option"
  arg_dest :: string
  arg_interval :: int
  arg_include_archived :: bool
  arg_pull_if_exists :: bool
  arg_sleep_on_skip :: bool

text \<open>\<^verbatim>\<open>parse_args\<close> exits with status 2 on a usage error and 0 after printing the help.\<close>

datatype cmdline = UsageError | Help | Parsed args

text \<open>\<^verbatim>\<open>args.user or args.org\<close> and \<^verbatim>\<open>bool(args.org)\<close>.\<close>

definition owner_of :: "target \<Rightarrow> string option" where
  "owner_of t = (case t of User u \<Rightarrow> (if u \<noteq> [] then Some u else None) | Org g \<Rightarrow> Some g)"

definition is_org_of :: "target \<Rightarrow> bool" where
  "is_org_of t = (case t of User u \<Rightarrow> False | Org g \<Rightarrow> g \<noteq> [])"

text \<open>
  The loop over the matched repositories: \<^verbatim>\<open>clones_done\<close> at its end, or the exception
  that ended it, and the world. \<open>sleep_then\<close> is a call of \<^verbatim>\<open>throttle_sleep\<close> followed
  by the rest of the loop.
\<close>

fun clone_loop ::
  "github_env \<Rightarrow> args \<Rightarrow> nat \<Rightarrow> Repo list \<Rightarrow> int \<Rightarrow> world \<Rightarrow> (py_error + int) \<times> world" where
  "clone_loop env a idx [] clones_done w = (Inr clones_done, w)"
| "clone_loop env a idx (repo # rest) clones_done w =
     (let repo_dest = os_path_join (arg_dest a) (name repo);
          sleep_then =
            (\<lambda>clones_done1 w1.
               case throttle_sleep env (arg_interval a) w1 of
                 Inl e \<Rightarrow> (Inl e, w1)
               | Inr w2 \<Rightarrow> clone_loop env a (idx + 1) rest clones_done1 w2)
      in if git_dir_exists env idx (os_path_join repo_dest ''.git'') then
           (if arg_pull_if_exists a then
              (case run_git_pull env idx repo_dest w of
                 (Inl e, w1) \<Rightarrow> (Inl e, w1)
               | (Inr code, w1) \<Rightarrow>
                   (let clones_done1 = (if code \<noteq> 0 then clones_done else clones_done + 1)
                    in if arg_sleep_on_skip a then sleep_then clones_done1 w1
                       else clone_loop env a (idx + 1) rest clones_done1 w1))
            else
              (if arg_sleep_on_skip a then sleep_then clones_done w
               else clone_loop env a (idx + 1) rest clones_done w))
         else
           (case run_git_clone env idx (ssh_url repo) repo_dest w of
              (Inl e, w1) \<Rightarrow> (Inl e, w1)
            | (Inr code, w1) \<Rightarrow>
                (let clones_done1 = (if code \<noteq> 0 then clones_done else clones_done + 1)
                 in sleep_then clones_done1 w1)))"

text \<open>
  \<^verbatim>\<open>main\<close>: the exit status of the process and the world it leaves. An exception that
  nothing catches (from \<^verbatim>\<open>os.makedirs\<close>, from \<^verbatim>\<open>re.compile\<close> inside \<^verbatim>\<open>filter_repos\<close>,
  or from \<^verbatim>\<open>time.sleep\<close> or \<^verbatim>\<open>subprocess.run\<close> inside the clone loop) ends the
  interpreter with status 1.
\<close>

definition main :: "github_env \<Rightarrow> cmdline \<Rightarrow> world \<Rightarrow> (int \<times> world) option" where
  "main env argv w =
     (if \<not> git_available env then Some (1, w)
      else case argv of
             UsageError \<Rightarrow> Some (2, w)
           | Help \<Rightarrow> Some (0, w)
           | Parsed a \<Rightarrow>
               if arg_interval a < MIN_CLONE_INTERVAL_SECONDS then Some (2, w)
               else
                 (let own = owner_of (arg_target a);
                      is_org = is_org_of (arg_target a);
                      w1 = emit (EvMakedirs (arg_dest a)) w
                  in if \<not> makedirs_ok env then Some (1, w1)
                     else
                       Option.bind (fetch_all_repos env own is_org w1)
                         (\<lambda>(r, w2).
                            case r of
                              Inl e \<Rightarrow> Some (1, w2)
                            | Inr repos \<Rightarrow>
                                (case filter_repos (re_engine env) repos (arg_match a)
                                        (arg_regex a) (arg_include_archived a) True of
                                   Inl e \<Rightarrow> Some (1, w2)
                                 | Inr matched \<Rightarrow>
                                     (case clone_loop env a 1 matched 0 w2 of
                                        (Inl e, w3) \<Rightarrow> Some (1, w3)
                                      | (Inr clones_done, w3) \<Rightarrow> Some (0, w3))))))"

subsection \<open>The filter as a predicate\<close>

definition archived_ok :: "bool \<Rightarrow> Repo \<Rightarrow> bool" where
  "archived_ok include_archived r = (include_archived \<or> \<not> archived r)"

text \<open>One pass of the loop body of \<^verbatim>\<open>filter_repos\<close>: whether \<open>r\<close> is appended.\<close>

definition kept ::
  "regex_engine \<Rightarrow> string option \<Rightarrow> string option \<Rightarrow> bool \<Rightarrow> Repo \<Rightarrow> bool" where
  "kept re match_substring compiled_regex include_archived r =
     (archived_ok include_archived r \<and> repo_matched re match_substring compiled_regex r)"

text \<open>The value of \<^verbatim>\<open>compiled_regex\<close> after the first statement of \<^verbatim>\<open>filter_repos\<close>.\<close>

definition compiled_of :: "string option \<Rightarrow> string option" where
  "compiled_of match_regex =
     (case match_regex of Some p \<Rightarrow> if p \<noteq> [] then Some p else None | None \<Rightarrow> None)"

text \<open>
  The matching predicate in the words of the specification, read over the text the code
  matches against (name, full name and description joined by newline characters).
\<close>

definition spec_included ::
  "regex_engine \<Rightarrow> string option \<Rightarrow> string option \<Rightarrow> bool \<Rightarrow> Repo \<Rightarrow> bool" where
  "spec_included re match_substring match_regex include_archived r =
     (archived_ok include_archived r \<and>
      ((match_substring = None \<and> match_regex = None) \<or>
       (case match_substring of
          Some s \<Rightarrow> contains (lower (text_blob r)) (lower s)
        | None \<Rightarrow> False) \<or>
       (case match_regex of
          Some p \<Rightarrow> re_search re p (text_blob r)
        | None \<Rightarrow> False)))"

text \<open>
  The same predicate read over the plain concatenation \<^verbatim>\<open>name + full_name + description\<close>,
  as the specification writes it.
\<close>

definition plain_concatenation :: "Repo \<Rightarrow> string" where
  "plain_concatenation r =
     name r @ full_name r @ (case description r of Some d \<Rightarrow> d | None \<Rightarrow> '''')"

definition claimed_included ::
  "regex_engine \<Rightarrow> string option \<Rightarrow> string option \<Rightarrow> bool \<Rightarrow> Repo \<Rightarrow> bool" where
  "claimed_included re match_substring match_regex include_archived r =
     (archived_ok include_archived r \<and>
      ((match_substring = None \<and> match_regex = None) \<or>
       (case match_substring of
          Some s \<Rightarrow> contains (lower (plain_concatenation r)) (lower s)
        | None \<Rightarrow> False) \<or>
       (case match_regex of
          Some p \<Rightarrow> re_search re p (plain_concatenation r)
        | None \<Rightarrow> False)))"

subsection \<open>Concrete repositories and a concrete engine\<close>

text \<open>An engine that accepts every pattern and searches for it as a literal text.\<close>

definition literal_engine :: regex_engine where
  "literal_engine = \<lparr>re_valid = (\<lambda>p. True), re_search = (\<lambda>p t. contains t p)\<rparr>"

definition repo_web :: Repo where
  "repo_web =
     \<lparr>owner = Some ''octo'', name = ''web'', full_name = ''octo/web'',
      ssh_url = ''git@github.com:octo/web.git'', archived = False,
      description = Some ''Scraping Tools''\<rparr>"

definition repo_old :: Repo where
  "repo_old =
     \<lparr>owner = Some ''octo'', name = ''old-web'', full_name = ''octo/old-web'',
      ssh_url = ''git@github.com:octo/old-web.git'', archived = True,
      description = None\<rparr>"

definition repo_cli :: Repo where
  "repo_cli =
     \<lparr>owner = Some ''octo'', name = ''cli'', full_name = ''octo/cli'',
      ssh_url = ''git@github.com:octo/cli.git'', archived = False,
      description = Some ''''\<rparr>"

subsection \<open>What a run of the listing receives\<close>

text \<open>The world after one call of \<^verbatim>\<open>requests.get\<close> for a page.\<close>

definition sent :: "string \<Rightarrow> int \<Rightarrow> world \<Rightarrow> world" where
  "sent url page w = emit (EvGet url page) (w\<lparr>requests_made := requests_made w + 1\<rparr>)"

text \<open>
  \<open>receives_pages env url page w pgs\<close>: asked for the pages \<open>page\<close>, \<open>page + 1\<close>, ...
  in turn, each from the world the previous request left, \<^verbatim>\<open>request_with_rate_limit\<close>
  returns the non-empty lists \<open>pgs\<close> one after the other and then an empty list; the
  result is the world after the empty page.
\<close>

fun receives_pages ::
  "github_env \<Rightarrow> string \<Rightarrow> int \<Rightarrow> world \<Rightarrow> item list list \<Rightarrow> world option" where
  "receives_pages env url page w [] =
     (case request_with_rate_limit env url page w of
        Some (Inr resp, w') \<Rightarrow> if resp_json resp = ItemList [] then Some w' else None
      | Some (Inl e, w') \<Rightarrow> None
      | None \<Rightarrow> None)"
| "receives_pages env url page w (data # rest) =
     (case request_with_rate_limit env url page w of
        Some (Inr resp, w') \<Rightarrow>
          if resp_json resp = ItemList data \<and> data \<noteq> []
          then receives_pages env url (page + 1) w' rest else None
      | Some (Inl e, w') \<Rightarrow> None
      | None \<Rightarrow> None)"

subsection \<open>Concrete responses, environments and arguments\<close>

definition ok_response :: "item list \<Rightarrow> response" where
  "ok_response data =
     \<lparr>status_code = 200, ratelimit_remaining = Some ''57'', ratelimit_reset = Some (IntText 1000),
      resp_text = ''[...]'', resp_json = ItemList data\<rparr>"

definition limited_response :: response where
  "limited_response =
     \<lparr>status_code = 403, ratelimit_remaining = Some ''0'', ratelimit_reset = Some (IntText 1000),
      resp_text = ''rate limit exceeded'', resp_json = NotAList\<rparr>"

definition limited_no_reset :: response where
  "limited_no_reset =
     \<lparr>status_code = 403, ratelimit_remaining = Some ''0'', ratelimit_reset = None,
      resp_text = ''rate limit exceeded'', resp_json = NotAList\<rparr>"

definition server_error :: response where
  "server_error =
     \<lparr>status_code = 500, ratelimit_remaining = None, ratelimit_reset = None,
      resp_text = ''oops'', resp_json = NotJson\<rparr>"

definition item_web :: item where
  "item_web =
     \<lparr>it_login = Some ''octo'', it_name = Some ''web'', it_full_name = Some ''octo/web'',
      it_ssh_url = Some ''git@github.com:octo/web.git'', it_archived = Some False,
      it_description = Some ''Scraping Tools''\<rparr>"

definition item_bare :: item where
  "item_bare =
     \<lparr>it_login = None, it_name = None, it_full_name = None, it_ssh_url = None,
      it_archived = None, it_description = None\<rparr>"

definition repo_unknown :: Repo where
  "repo_unknown =
     \<lparr>owner = Some ''octo'', name = '''', full_name = ''octo/unknown'',
      ssh_url = ''git@github.com:octo/unknown.git'', archived = False, description = None\<rparr>"

text \<open>
  An environment with the given answers of the network: the clock reads 990, git is
  installed, the destination can be created, nothing is cloned yet, every git command
  succeeds and the operating system refuses no sleep.
\<close>

definition env_of :: "(nat \<Rightarrow> net_outcome) \<Rightarrow> github_env" where
  "env_of answers =
     \<lparr>net = answers, clock = (\<lambda>k. 990), git_available = True, makedirs_ok = True,
      git_dir_exists = (\<lambda>idx path. False), git_clone = (\<lambda>idx url dest. Exit 0),
      git_pull = (\<lambda>idx dest. Exit 0), sleep_refused = (\<lambda>s. False),
      re_engine = literal_engine\<rparr>"

text \<open>Two items, a rate-limit response, one more item, then the empty page.\<close>

definition answers_paged :: "nat \<Rightarrow> net_outcome" where
  "answers_paged k =
     (if k = 0 then Got (ok_response [item_web, item_bare])
      else if k = 1 then Got limited_response
      else if k = 2 then Got (ok_response [item_bare])
      else Got (ok_response []))"

definition answers_limited :: "nat \<Rightarrow> net_outcome" where
  "answers_limited k = (if k = 0 then Got limited_response else Got server_error)"

definition w0 :: world where
  "w0 = \<lparr>requests_made = 0, events = []\<rparr>"

definition octo_url :: string where
  "octo_url = ''https://api.github.com/users/octo/repos''"

definition args_ok :: args where
  "args_ok =
     \<lparr>arg_target = User ''octo'', arg_match = Some ''web'', arg_regex = None,
      arg_dest = ''./repos'', arg_interval = 10, arg_include_archived = False,
      arg_pull_if_exists = False, arg_sleep_on_skip = False\<rparr>"

definition args_short :: args where
  "args_short = args_ok\<lparr>arg_interval := 5\<rparr>"

text \<open>Whether \<^verbatim>\<open>time.sleep\<close> accepts a duration, that is, sleeps instead of raising.\<close>

definition sleep_accepted :: "github_env \<Rightarrow> int \<Rightarrow> bool" where
  "sleep_accepted env seconds =
     (0 \<le> seconds \<and> seconds \<le> SLEEP_MAX \<and> \<not> sleep_refused env seconds)"

text \<open>A rate-limit response whose reset time lies ten thousand million seconds ahead.\<close>

definition limited_far_reset :: response where
  "limited_far_reset =
     \<lparr>status_code = 403, ratelimit_remaining = Some ''0'',
      ratelimit_reset = Some (IntText 10000000000),
      resp_text = ''rate limit exceeded'', resp_json = NotAList\<rparr>"

definition args_huge :: args where
  "args_huge = args_ok\<lparr>arg_interval := 10000000000\<rparr>"

definition env_no_git :: github_env where
  "env_no_git = (env_of answers_paged)\<lparr>git_available := False\<rparr>"

section \<open>Properties of the string functions\<close>

text \<open>
  \<open>startswith\<close> and \<open>contains\<close> are the prefix and the contiguous-sublist relations of
  the list library.
\<close>

lemma startswith_iff_prefix: "startswith s p \<longleftrightarrow> prefix p s"
  by (induction s p rule: startswith.induct) auto

lemma contains_iff_sublist: "contains s sub \<longleftrightarrow> sublist sub s"
  by (induction s) (auto simp: startswith_iff_prefix sublist_Cons_right)

section \<open>Properties of the arXiv tool\<close>

subsection \<open>\<^verbatim>\<open>parse_response\<close>\<close>

text \<open>
  Claim C1: for every document of the Atom and arXiv schema \<^verbatim>\<open>parse_response\<close> is total
  and gives one record per entry. On the code it is not total: an entry whose title
  element is present and empty (\<^verbatim>\<open><title/>\<close>, which the Atom schema allows) has the text
  \<^verbatim>\<open>None\<close>, and \<^verbatim>\<open>title_elem.text.strip()\<close> raises \<^verbatim>\<open>AttributeError\<close>. The guard
  of the source tests the element, not its text.
\<close>

theorem parse_response_empty_title_raises: "parse_response (Document feed_empty_title) = Inl AttributeError"
  by code_simp

text \<open>
  What does hold: a feed of two entries, the second without any optional element; the
  parse is total when the title, summary and id elements that are present carry text;
  it gives the entries' records one by one in document order; and the defaults are the
  documented ones.
\<close>

lemma parse_response_two_entries: "parse_response (Document feed_two)
   = Inr [\<lparr>title = ''Attention Is All You Need'', authors = [Some ''A. Vaswani''],
           summary = ''We propose the Transformer.'', arxiv_id = Some ''1706.03762v7'',
           pdf_url = Some (Some ''http://arxiv.org/pdf/1706.03762v7'')\<rparr>,
          \<lparr>title = ''Unknown Title'', authors = [], summary = '''', arxiv_id = None,
           pdf_url = None\<rparr>]"
  by code_simp

lemma parse_entry_total:
  "texts_present entry \<Longrightarrow> \<exists>p. parse_entry entry = Inr p"
  by (auto simp: texts_present_def has_text_def parse_entry_def entry_title_def
        entry_summary_def entry_arxiv_id_def text_strip_def split: option.splits)

lemma parse_entries_total:
  "list_all texts_present es \<Longrightarrow> \<exists>ps. parse_entries es = Inr ps"
proof (induction es)
  case Nil
  then show ?case by simp
next
  case (Cons e es)
  then obtain p ps where "parse_entry e = Inr p" "parse_entries es = Inr ps"
    using parse_entry_total by fastforce
  then show ?case by simp
qed

lemma parse_entries_pointwise:
  "parse_entries es = Inr ps \<Longrightarrow> map parse_entry es = map Inr ps"
  by (induction es arbitrary: ps) (auto split: sum.splits)

lemma parse_response_total:
  "list_all texts_present (findall (atom ''entry'') root) \<Longrightarrow>
   \<exists>ps. parse_response (Document root) = Inr ps
       \<and> map parse_entry (findall (atom ''entry'') root) = map Inr ps"
  using parse_entries_total parse_entries_pointwise
  by (fastforce simp: parse_response_def)

lemma parse_entry_defaults:
  assumes "parse_entry entry = Inr p"
  shows "(find_elem (atom ''title'') entry = None \<longrightarrow> title p = ''Unknown Title'')
       \<and> (find_elem (atom ''summary'') entry = None \<longrightarrow> summary p = '''')
       \<and> pdf_url p = first_pdf_link (findall (atom ''link'') entry)
       \<and> authors p = author_names (findall (atom ''author'') entry)"
  using assms
  by (auto simp: parse_entry_def entry_title_def entry_summary_def split: sum.splits)

subsection \<open>File name sanitization\<close>

lemma length_safe_title: "length (safe_title t) \<le> 100"
  by (simp add: safe_title_def)

lemma rstrip_idem: "rstrip (rstrip s) = rstrip s"
  by (simp add: rstrip_def dropWhile_idem)

lemma set_rstrip: "set (rstrip s) \<subseteq> set s"
  using set_dropWhileD by (fastforce simp: rstrip_def)

lemma safe_title_chars: "list_all safe_char (safe_title t)"
proof -
  have "set (safe_title t) \<subseteq> set (filter safe_char t)"
    unfolding safe_title_def using set_take_subset set_rstrip by fastforce
  then show ?thesis
    by (auto simp: list_all_iff)
qed

lemma filter_safe_id: "list_all safe_char s \<Longrightarrow> filter safe_char s = s"
  by (induction s) auto

lemma rstrip_no_trailing:
  assumes "s \<noteq> []" and "\<not> isspace (last s)"
  shows "rstrip s = s"
proof -
  from assms(1) obtain c cs where r: "rev s = c # cs"
    by (cases "rev s") auto
  then have "last s = c"
    by (metis last_rev list.sel(1) rev_rev_ident)
  with assms(2) r have "dropWhile isspace (rev s) = rev s"
    by simp
  then show ?thesis
    by (simp add: rstrip_def)
qed

text \<open>A result without trailing whitespace is a fixed point of the sanitization.\<close>

lemma safe_title_fixed:
  assumes "rstrip (safe_title t) = safe_title t"
  shows "safe_title (safe_title t) = safe_title t"
proof -
  have f: "filter safe_char (safe_title t) = safe_title t"
    by (rule filter_safe_id) (rule safe_title_chars)
  have "safe_title (safe_title t) = take 100 (rstrip (safe_title t))"
    by (simp add: safe_title_def[of "safe_title t"] f)
  also have "\<dots> = take 100 (safe_title t)"
    by (simp only: assms)
  also have "\<dots> = safe_title t"
    using length_safe_title [of t] by simp
  finally show ?thesis .
qed

lemma safe_title_no_trailing:
  assumes "length (rstrip (filter safe_char t)) \<le> 100
           \<or> \<not> isspace (rstrip (filter safe_char t) ! 99)"
  shows "rstrip (safe_title t) = safe_title t"
proof (cases "length (rstrip (filter safe_char t)) \<le> 100")
  case True
  then have "safe_title t = rstrip (filter safe_char t)"
    by (simp add: safe_title_def)
  then show ?thesis
    by (simp add: rstrip_idem)
next
  case False
  with assms have n: "\<not> isspace (rstrip (filter safe_char t) ! 99)"
    by simp
  from False have l: "length (safe_title t) = 100"
    by (simp add: safe_title_def)
  then have e: "safe_title t \<noteq> []"
    by auto
  from l e have "last (safe_title t) = safe_title t ! 99"
    by (simp add: last_conv_nth)
  also have "\<dots> = rstrip (filter safe_char t) ! 99"
    by (simp add: safe_title_def)
  finally have "\<not> isspace (last (safe_title t))"
    using n by simp
  with e show ?thesis
    by (rule rstrip_no_trailing)
qed

text \<open>
  Claim C2, as stated: the sanitized title contains only characters of
  \<^verbatim>\<open>[A-Za-z0-9 _-]\<close>. It fails on the code: \<^verbatim>\<open>str.isalnum\<close> is true of every letter
  and digit of Unicode, so the letter U+00E9 of a title is kept.
\<close>

theorem safe_title_non_ascii_counterexample: "\<not> list_all ascii_safe (safe_title title_cafe)"
  by code_simp

text \<open>
  The truncation comes after \<^verbatim>\<open>rstrip()\<close>: a title whose hundredth kept character is a
  space, with more characters after it, keeps that space at its end, and sanitizing the
  result again removes it.
\<close>

lemma safe_title_truncation_leaves_space:
  "safe_title title_long = replicate 99 (CHR ''a'') @ '' ''
   \<and> safe_title (safe_title title_long) = replicate 99 (CHR ''a'')"
  by code_simp

text \<open>
  Claim C2, amended. For every title the sanitized result contains only characters that
  are alphanumeric for \<^verbatim>\<open>str.isalnum\<close>, spaces, hyphens and underscores, and is at most
  100 characters long; unless the truncation cuts right after a space (the filtered and
  right-stripped title is longer than 100 characters and its hundredth character is
  whitespace), the result has no trailing whitespace and sanitizing it again gives it
  back.
\<close>

theorem safe_title_charset_length:
  "list_all safe_char (safe_title t)
   \<and> length (safe_title t) \<le> 100
   \<and> (length (rstrip (filter safe_char t)) \<le> 100
        \<or> \<not> isspace (rstrip (filter safe_char t) ! 99) \<longrightarrow>
        rstrip (safe_title t) = safe_title t \<and> safe_title (safe_title t) = safe_title t)"
  using safe_title_chars [of t] length_safe_title [of t] safe_title_no_trailing [of t]
    safe_title_fixed [of t]
  by blast

theorem safe_title_charset_length_witness:
  "safe_title title_cafe = ''Caf'' @ [CHR 0xE9] @ '' society a survey''
   \<and> safe_title (safe_title title_cafe) = safe_title title_cafe
   \<and> safe_title title_many = replicate 100 (CHR ''a'')
   \<and> rstrip (safe_title title_many) = safe_title title_many
   \<and> safe_title (safe_title title_many) = safe_title title_many"
proof -
  have e: "safe_title title_cafe = ''Caf'' @ [CHR 0xE9] @ '' society a survey''"
    by code_simp
  have l: "length (rstrip (filter safe_char title_cafe)) \<le> 100"
    by code_simp
  have m: "safe_title title_many = replicate 100 (CHR ''a'')"
    by code_simp
  have n: "\<not> isspace (rstrip (filter safe_char title_many) ! 99)"
    by code_simp
  from safe_title_charset_length [of title_cafe] l
  have a: "safe_title (safe_title title_cafe) = safe_title title_cafe"
    by blast
  from safe_title_charset_length [of title_many] n
  have b: "rstrip (safe_title title_many) = safe_title title_many
           \<and> safe_title (safe_title title_many) = safe_title title_many"
    by blast
  from e a m b show ?thesis
    by blast
qed

subsection \<open>\<^verbatim>\<open>download_paper\<close>\<close>

lemma say_frame: "files (say m w) = files w \<and> requested (say m w) = requested w"
  by (simp add: say_def)

text \<open>
  Claim C7. For a record without \<^verbatim>\<open>pdf_url\<close>, \<^verbatim>\<open>download_paper\<close> reports
  "PDF link not found" with the title, so that this message is the one line added to the
  console, and returns \<open>False\<close>; it sends no request and writes no file. For a record
  with \<^verbatim>\<open>pdf_url\<close> it returns \<open>True\<close> exactly when the response has status 200 and
  the whole body is written to the file, so it returns
  \<open>False\<close> on any other status and on any exception; and when it returns \<open>True\<close>
  the file holds the body of the response.
\<close>

theorem download_paper_outcomes:
  "(pdf_url p = None \<longrightarrow>
      download_paper env download_dir p w = (False, say (PdfLinkNotFound (title p)) w)
      \<and> console (snd (download_paper env download_dir p w))
          = console w @ [PdfLinkNotFound (title p)]
      \<and> files (snd (download_paper env download_dir p w)) = files w
      \<and> requested (snd (download_paper env download_dir p w)) = requested w)
   \<and> (pdf_url p \<noteq> None \<longrightarrow>
        fst (download_paper env download_dir p w) = fetched_and_written env download_dir p)
   \<and> (\<forall>u i status content.
        pdf_url p = Some (Some u) \<and> arxiv_id p = Some i \<and> http env u = Response status content
        \<and> fst (download_paper env download_dir p w) \<longrightarrow>
          files (snd (download_paper env download_dir p w)) (target_path download_dir p i)
            = Some content)"
proof (intro conjI impI allI)
  assume "pdf_url p = None"
  then show "download_paper env download_dir p w = (False, say (PdfLinkNotFound (title p)) w)"
    by (simp add: download_paper_def)
  then show "files (snd (download_paper env download_dir p w)) = files w"
    by (simp add: say_frame)
  from \<open>pdf_url p = None\<close>
  show "console (snd (download_paper env download_dir p w))
          = console w @ [PdfLinkNotFound (title p)]"
    by (simp add: download_paper_def say_def)
  from \<open>pdf_url p = None\<close>
  show "requested (snd (download_paper env download_dir p w)) = requested w"
    by (simp add: download_paper_def say_frame)
next
  assume "pdf_url p \<noteq> None"
  then show "fst (download_paper env download_dir p w) = fetched_and_written env download_dir p"
    by (auto simp: download_paper_def fetched_and_written_def target_path_def Let_def
             split: option.splits http_result.splits write_result.splits)
next
  fix u i status content
  assume "pdf_url p = Some (Some u) \<and> arxiv_id p = Some i \<and> http env u = Response status content
        \<and> fst (download_paper env download_dir p w)"
  then show "files (snd (download_paper env download_dir p w)) (target_path download_dir p i)
            = Some content"
    by (auto simp: download_paper_def target_path_def Let_def say_frame
             split: if_splits write_result.splits)
qed

theorem download_paper_outcomes_witness:
  "download_paper arxiv_env_ok ''arxiv_papers'' paper_unknown arxiv_w0
     = (False, say (PdfLinkNotFound ''Unknown Title'') arxiv_w0)
   \<and> console (snd (download_paper arxiv_env_ok ''arxiv_papers'' paper_unknown arxiv_w0))
       = [PdfLinkNotFound ''Unknown Title'']
   \<and> requested (snd (download_paper arxiv_env_ok ''arxiv_papers'' paper_unknown arxiv_w0)) = []
   \<and> fst (download_paper arxiv_env_ok ''arxiv_papers'' paper_attention arxiv_w0)
   \<and> files (snd (download_paper arxiv_env_ok ''arxiv_papers'' paper_attention arxiv_w0))
       ''arxiv_papers/1706.03762v7_Attention Is All You Need.pdf'' = Some ''%PDF-1.5''"
proof -
  have a: "pdf_url paper_unknown = None" "title paper_unknown = ''Unknown Title''"
    "requested arxiv_w0 = []" "console arxiv_w0 = []"
    by (simp_all add: paper_unknown_def arxiv_w0_def)
  have b: "pdf_url paper_attention = Some (Some ''http://arxiv.org/pdf/1706.03762v7'')"
    "arxiv_id paper_attention = Some ''1706.03762v7''"
    by (simp_all add: paper_attention_def)
  have h: "http arxiv_env_ok ''http://arxiv.org/pdf/1706.03762v7'' = Response 200 ''%PDF-1.5''"
    by (simp add: arxiv_env_ok_def)
  have f: "fetched_and_written arxiv_env_ok ''arxiv_papers'' paper_attention"
    by code_simp
  have t: "target_path ''arxiv_papers'' paper_attention ''1706.03762v7''
           = ''arxiv_papers/1706.03762v7_Attention Is All You Need.pdf''"
    by code_simp
  note u = download_paper_outcomes [of paper_unknown arxiv_env_ok "''arxiv_papers''" arxiv_w0]
  note v = download_paper_outcomes [of paper_attention arxiv_env_ok "''arxiv_papers''" arxiv_w0]
  have s: "fst (download_paper arxiv_env_ok ''arxiv_papers'' paper_attention arxiv_w0)"
    using v b f by simp
  have "files (snd (download_paper arxiv_env_ok ''arxiv_papers'' paper_attention arxiv_w0))
          (target_path ''arxiv_papers'' paper_attention ''1706.03762v7'') = Some ''%PDF-1.5''"
    using v b h s by blast
  then have fl: "files (snd (download_paper arxiv_env_ok ''arxiv_papers'' paper_attention arxiv_w0))
          ''arxiv_papers/1706.03762v7_Attention Is All You Need.pdf'' = Some ''%PDF-1.5''"
    unfolding t .
  from u a(1) have c:
    "download_paper arxiv_env_ok ''arxiv_papers'' paper_unknown arxiv_w0
       = (False, say (PdfLinkNotFound (title paper_unknown)) arxiv_w0)
     \<and> console (snd (download_paper arxiv_env_ok ''arxiv_papers'' paper_unknown arxiv_w0))
         = console arxiv_w0 @ [PdfLinkNotFound (title paper_unknown)]
     \<and> requested (snd (download_paper arxiv_env_ok ''arxiv_papers'' paper_unknown arxiv_w0))
         = requested arxiv_w0"
    by blast
  have n:
    "download_paper arxiv_env_ok ''arxiv_papers'' paper_unknown arxiv_w0
       = (False, say (PdfLinkNotFound ''Unknown Title'') arxiv_w0)"
    "console (snd (download_paper arxiv_env_ok ''arxiv_papers'' paper_unknown arxiv_w0))
       = [PdfLinkNotFound ''Unknown Title'']"
    "requested (snd (download_paper arxiv_env_ok ''arxiv_papers'' paper_unknown arxiv_w0)) = []"
    using c unfolding a append_Nil by blast+
  from n s fl show ?thesis
    by blast
qed

section \<open>Properties of \<^verbatim>\<open>filter_repos\<close>\<close>

lemma filter_loop_eq:
  "filter_loop re ms cr ia rs acc = acc @ filter (kept re ms cr ia) rs"
  by (induction rs arbitrary: acc) (auto simp: kept_def archived_ok_def)

lemma filter_repos_cases:
  "filter_repos re repos ms mr ia fk =
     (case compiled_of mr of
        Some p \<Rightarrow>
          if re_valid re p then Inr (filter (kept re ms (Some p) ia) repos) else Inl RegexError
      | None \<Rightarrow> Inr (filter (kept re ms None ia) repos))"
  by (simp add: filter_repos_def compiled_of_def filter_loop_eq split: option.splits)

lemma kept_no_filters: "kept re None None ia r = archived_ok ia r"
  by (simp add: kept_def repo_matched_def)

text \<open>
  Claim C5. Filtering is idempotent: filtering the result of a filtering again, with the
  same configuration, gives that result again (and when the first call raises on the
  pattern, so does the composition). The result is a subsequence of the input, so the
  order is preserved. With neither a substring nor a regex, the result is the input list
  without the repositories that the archived exclusion drops.
\<close>

theorem filter_repos_idempotent_order_preserving:
  "(case filter_repos re L ms mr ia fk of
      Inl e \<Rightarrow> Inl e
    | Inr L' \<Rightarrow> filter_repos re L' ms mr ia fk) = filter_repos re L ms mr ia fk
   \<and> (case filter_repos re L ms mr ia fk of Inl e \<Rightarrow> True | Inr L' \<Rightarrow> subseq L' L)
   \<and> filter_repos re L None None ia fk = Inr (filter (archived_ok ia) L)"
proof (intro conjI)
  show "(case filter_repos re L ms mr ia fk of
      Inl e \<Rightarrow> Inl e
    | Inr L' \<Rightarrow> filter_repos re L' ms mr ia fk) = filter_repos re L ms mr ia fk"
    by (simp add: filter_repos_cases split: option.splits)
  show "case filter_repos re L ms mr ia fk of Inl e \<Rightarrow> True | Inr L' \<Rightarrow> subseq L' L"
    by (simp add: filter_repos_cases split: option.splits)
  show "filter_repos re L None None ia fk = Inr (filter (archived_ok ia) L)"
    by (simp add: filter_repos_cases compiled_of_def kept_no_filters[abs_def])
qed

theorem filter_repos_idempotent_order_preserving_witness:
  "filter_repos literal_engine [repo_web] (Some ''WEB'') None False True = Inr [repo_web]
   \<and> subseq [repo_web] [repo_web, repo_old, repo_cli]
   \<and> filter_repos literal_engine [repo_web, repo_old, repo_cli] None None False True
       = Inr [repo_web, repo_cli]"
proof -
  have e: "filter_repos literal_engine [repo_web, repo_old, repo_cli] (Some ''WEB'') None False True
             = Inr [repo_web]"
    by code_simp
  have f: "filter (archived_ok False) [repo_web, repo_old, repo_cli] = [repo_web, repo_cli]"
    by code_simp
  show ?thesis
    using filter_repos_idempotent_order_preserving
            [where re = literal_engine and L = "[repo_web, repo_old, repo_cli]"
               and ms = "Some ''WEB''" and mr = None and ia = False and fk = True]
    unfolding e f by simp
qed

text \<open>
  Claim C6, as stated: a repository is included exactly when no filter is supplied, or
  the substring occurs (ignoring case) in the concatenation of name, full name and
  description, or the regex matches that concatenation. It fails on the code: the name
  \<open>web\<close> followed by the full name \<open>octo/web\<close> contains \<open>webocto\<close>, but the code
  matches against the three fields joined by newline characters and drops the repository.
\<close>

theorem filter_repos_plain_concatenation_counterexample:
  "claimed_included literal_engine (Some ''webocto'') None False repo_web
   \<and> filter_repos literal_engine [repo_web] (Some ''webocto'') None False True = Inr []"
  by code_simp

text \<open>
  Claim C6, amended. When each of the two filters is absent or a non-empty string, and
  the regex (if any) compiles, the result is the input list restricted, in order, to the
  repositories that are not dropped as archived and for which no filter is supplied, or
  the substring occurs (ignoring case) in name, full name and description joined by
  newline characters, or the regex matches that same text.
\<close>

theorem filter_repos_includes_exactly:
  assumes "ms \<noteq> Some []" and "mr \<noteq> Some []"
    and "case mr of Some p \<Rightarrow> re_valid re p | None \<Rightarrow> True"
  shows "filter_repos re repos ms mr ia fk = Inr (filter (spec_included re ms mr ia) repos)"
proof -
  have k: "kept re ms (compiled_of mr) ia = spec_included re ms mr ia"
    using assms
    by (auto simp: fun_eq_iff kept_def spec_included_def repo_matched_def compiled_of_def
             split: option.splits)
  show ?thesis
    using assms k
    by (auto simp: filter_repos_cases compiled_of_def split: option.splits if_splits)
qed

theorem filter_repos_includes_exactly_witness:
  "filter_repos literal_engine [repo_web, repo_old, repo_cli] (Some ''TOOLS'') (Some ''cli'')
     False True
   = Inr [repo_web, repo_cli]"
proof -
  have f: "filter (spec_included literal_engine (Some ''TOOLS'') (Some ''cli'') False)
             [repo_web, repo_old, repo_cli] = [repo_web, repo_cli]"
    by code_simp
  have "filter_repos literal_engine [repo_web, repo_old, repo_cli] (Some ''TOOLS'') (Some ''cli'')
          False True
        = Inr (filter (spec_included literal_engine (Some ''TOOLS'') (Some ''cli'') False)
                 [repo_web, repo_old, repo_cli])"
    by (rule filter_repos_includes_exactly) (simp_all add: literal_engine_def)
  then show ?thesis
    by (simp only: f)
qed

text \<open>
  Claim C9. The argument \<^verbatim>\<open>include_forks\<close> has no effect: for every list and every
  setting of the other parameters, the result with \<open>True\<close> is the result with \<open>False\<close>.
\<close>

theorem filter_repos_ignores_include_forks:
  "filter_repos re repos ms mr ia True = filter_repos re repos ms mr ia False"
  by (simp add: filter_repos_def)

text \<open>
  Claim C10. With the empty string as substring filter and no regex filter, the result is
  the empty list for every input list (so also for every non-empty list of repositories
  that are not archived): the empty substring is false in the first test, and the third
  test asks for the substring to be \<^verbatim>\<open>None\<close>.
\<close>

theorem filter_repos_empty_substring_drops_all:
  "filter_repos re repos (Some '''') None ia fk = Inr []"
  by (simp add: filter_repos_cases compiled_of_def kept_def repo_matched_def)

section \<open>Properties of the listing\<close>

lemma fetch_pages_receives:
  "receives_pages env url page w pgs = Some w' \<Longrightarrow>
   fetch_pages env own url page repos w
     = Some (Inr (repos @ concat (map (map (to_repo own)) pgs)), w')"
proof (induction pgs arbitrary: page w repos)
  case Nil
  then show ?case
    by (subst fetch_pages.simps) (auto split: option.splits sum.splits if_splits)
next
  case (Cons data rest)
  then show ?case
    by (subst fetch_pages.simps) (auto split: option.splits sum.splits if_splits)
qed

lemma time_sleep_accepted:
  "sleep_accepted env s \<Longrightarrow> time_sleep env s w = Inr (emit (EvSleep s) w)"
  by (simp add: sleep_accepted_def time_sleep_def)

lemma time_sleep_raises:
  "\<not> sleep_accepted env s \<Longrightarrow> \<exists>e. time_sleep env s w = Inl e"
  by (auto simp: sleep_accepted_def time_sleep_def)

text \<open>
  The retry loop has no bound: against a server that answers every request with the
  rate-limit response, and with every wait accepted by \<^verbatim>\<open>time.sleep\<close>,
  \<^verbatim>\<open>request_with_rate_limit\<close> never returns.
\<close>

lemma request_with_rate_limit_returns_only_if:
  assumes "request_with_rate_limit env url page w = Some y"
  shows "\<exists>k. net env k \<noteq> Got limited_response \<or> \<not> sleep_accepted env (max 1 (1002 - clock env k))"
proof (rule request_with_rate_limit.raw_induct
         [where P = "\<lambda>env url page w y. \<exists>k. net env k \<noteq> Got limited_response \<or> \<not> sleep_accepted env (max 1 (1002 - clock env k))", OF _ assms])
  fix request :: "github_env \<Rightarrow> string \<Rightarrow> int \<Rightarrow> world \<Rightarrow> ((py_error + response) \<times> world) option"
    and env url page w y
  assume IH: "\<And>env url page w y. request env url page w = Some y \<Longrightarrow>
                \<exists>k. net env k \<noteq> Got limited_response \<or> \<not> sleep_accepted env (max 1 (1002 - clock env k))"
  assume body: "(let k = requests_made w;
          w1 = emit (EvGet url page) (w\<lparr>requests_made := k + 1\<rparr>)
      in case net env k of
           NetRaises \<Rightarrow> Some (Inl ConnectionError, w1)
         | Got resp \<Rightarrow>
             if status_code resp = 403 \<and> ratelimit_remaining resp = Some ''0'' then
               (case ratelimit_reset resp of
                  Some (IntText reset_epoch) \<Rightarrow>
                    (let sleep_seconds = max 1 (reset_epoch - clock env k + 2)
                     in case time_sleep env sleep_seconds w1 of
                          Inl e \<Rightarrow> Some (Inl e, w1)
                        | Inr w2 \<Rightarrow> request env url page w2)
                | Some NotAnInt \<Rightarrow> Some (Inl ValueError, w1)
                | None \<Rightarrow>
                    if status_code resp \<ge> 400
                    then Some (Inl (ApiError (status_code resp) (resp_text resp)), w1)
                    else Some (Inr resp, w1))
             else if status_code resp \<ge> 400
             then Some (Inl (ApiError (status_code resp) (resp_text resp)), w1)
             else Some (Inr resp, w1)) = Some y"
  show "\<exists>k. net env k \<noteq> Got limited_response \<or> \<not> sleep_accepted env (max 1 (1002 - clock env k))"
  proof (cases "net env (requests_made w) = Got limited_response
                \<and> sleep_accepted env (max 1 (1002 - clock env (requests_made w)))")
    case True
    with body have "\<exists>w2. request env url page w2 = Some y"
      by (auto simp: Let_def limited_response_def time_sleep_accepted)
    with IH show ?thesis by blast
  next
    case False
    then show ?thesis by blast
  qed
qed

lemma request_with_rate_limit_never_returns:
  "request_with_rate_limit (env_of (\<lambda>k. Got limited_response)) url page w = None"
proof (cases "request_with_rate_limit (env_of (\<lambda>k. Got limited_response)) url page w")
  case None
  then show ?thesis .
next
  case (Some y)
  from request_with_rate_limit_returns_only_if [OF this] show ?thesis
    by (simp add: env_of_def sleep_accepted_def SLEEP_MAX_def)
qed

text \<open>
  Conversely, whenever the loop returns a list, the pages it received were non-empty up
  to a first empty page, and the list is their concatenation.
\<close>

lemma fetch_pages_returns_only_so_aux:
  assumes "fetch_pages env own url page repos w = Some y"
  shows "\<forall>rs w'. y = (Inr rs, w') \<longrightarrow>
           (\<exists>pgs. receives_pages env url page w pgs = Some w'
                 \<and> rs = repos @ concat (map (map (to_repo own)) pgs))"
proof (rule fetch_pages.raw_induct
         [where P = "\<lambda>env own url page repos w y. \<forall>rs w'. y = (Inr rs, w') \<longrightarrow>
           (\<exists>pgs. receives_pages env url page w pgs = Some w'
                 \<and> rs = repos @ concat (map (map (to_repo own)) pgs))", OF _ assms])
  fix fetch :: "github_env \<Rightarrow> string option \<Rightarrow> string \<Rightarrow> int \<Rightarrow> Repo list \<Rightarrow> world \<Rightarrow>
                  ((py_error + Repo list) \<times> world) option"
    and env own url page repos w y
  assume IH: "\<And>env own url page repos w y. fetch env own url page repos w = Some y \<Longrightarrow>
           \<forall>rs w'. y = (Inr rs, w') \<longrightarrow>
           (\<exists>pgs. receives_pages env url page w pgs = Some w'
                 \<and> rs = repos @ concat (map (map (to_repo own)) pgs))"
  assume body: "Option.bind (request_with_rate_limit env url page w)
       (\<lambda>(r, w1).
          case r of
            Inl e \<Rightarrow> Some (Inl e, w1)
          | Inr resp \<Rightarrow>
              (case resp_json resp of
                 NotJson \<Rightarrow> Some (Inl JSONDecodeError, w1)
               | NotAList \<Rightarrow> Some (Inl UnexpectedResponse, w1)
               | ItemList data \<Rightarrow>
                   if length data = 0 then Some (Inr repos, w1)
                   else fetch env own url (page + 1) (repos @ map (to_repo own) data) w1))
       = Some y"
  show "\<forall>rs w'. y = (Inr rs, w') \<longrightarrow>
           (\<exists>pgs. receives_pages env url page w pgs = Some w'
                 \<and> rs = repos @ concat (map (map (to_repo own)) pgs))"
  proof (intro allI impI)
    fix rs w'
    assume y: "y = (Inr rs, w')"
    from body y obtain resp w1 where
      r: "request_with_rate_limit env url page w = Some (Inr resp, w1)"
      by (cases "request_with_rate_limit env url page w")
         (auto split: sum.splits payload.splits if_splits prod.splits)
    show "\<exists>pgs. receives_pages env url page w pgs = Some w'
                 \<and> rs = repos @ concat (map (map (to_repo own)) pgs)"
    proof (cases "resp_json resp")
      case NotJson
      with body r y show ?thesis by simp
    next
      case NotAList
      with body r y show ?thesis by simp
    next
      case (ItemList data)
      show ?thesis
      proof (cases "data = []")
        case True
        with body r y ItemList have e: "rs = repos" "w' = w1" by simp_all
        from r ItemList True e have "receives_pages env url page w [] = Some w'" by simp
        with e show ?thesis by (intro exI[of _ "[]"]) simp
      next
        case False
        with body r y ItemList
        have "fetch env own url (page + 1) (repos @ map (to_repo own) data) w1 = Some (Inr rs, w')"
          by simp
        from IH[OF this] obtain pgs where
          p: "receives_pages env url (page + 1) w1 pgs = Some w'"
             "rs = (repos @ map (to_repo own) data) @ concat (map (map (to_repo own)) pgs)"
          by blast
        from r ItemList False p(1) have "receives_pages env url page w (data # pgs) = Some w'"
          by simp
        with p(2) show ?thesis by (intro exI[of _ "data # pgs"]) simp
      qed
    qed
  qed
qed

lemma fetch_all_repos_returns_only_so:
  assumes "fetch_all_repos env own is_org w = Some (Inr rs, w')"
  shows "\<exists>pgs. receives_pages env (build_repos_endpoint own is_org) 1 w pgs = Some w'
             \<and> rs = concat (map (map (to_repo own)) pgs)"
  using fetch_pages_returns_only_so_aux [OF assms [unfolded fetch_all_repos_def]] by simp

text \<open>
  Claim C3. When the requests for the pages 1, 2, ... receive the non-empty pages \<open>pgs\<close>
  and then an empty page, \<^verbatim>\<open>fetch_all_repos\<close> returns: its result is the concatenation of
  those pages in request order, each item turned into a \<^verbatim>\<open>Repo\<close>, and the world it
  leaves is the one right after the empty page, so no further page is requested.
\<close>

theorem fetch_all_repos_stops_at_first_empty_page:
  assumes "receives_pages env (build_repos_endpoint own is_org) 1 w pgs = Some w'"
  shows "fetch_all_repos env own is_org w
           = Some (Inr (concat (map (map (to_repo own)) pgs)), w')"
  using fetch_pages_receives [OF assms, of own "[]"] by (simp add: fetch_all_repos_def)

theorem fetch_all_repos_stops_at_first_empty_page_witness:
  "fetch_all_repos (env_of answers_paged) (Some ''octo'') False w0
     = Some (Inr [repo_web, repo_unknown, repo_unknown],
             \<lparr>requests_made = 4,
                events = [EvGet octo_url 1, EvGet octo_url 2, EvSleep 12, EvGet octo_url 2,
                          EvGet octo_url 3]\<rparr>)"
proof -
  have d: "receives_pages (env_of answers_paged) (build_repos_endpoint (Some ''octo'') False) 1 w0
             [[item_web, item_bare], [item_bare]]
           = Some \<lparr>requests_made = 4,
                events = [EvGet octo_url 1, EvGet octo_url 2, EvSleep 12, EvGet octo_url 2,
                          EvGet octo_url 3]\<rparr>"
    by code_simp
  have r: "concat (map (map (to_repo (Some ''octo''))) [[item_web, item_bare], [item_bare]])
           = [repo_web, repo_unknown, repo_unknown]"
    by code_simp
  show ?thesis
    using fetch_all_repos_stops_at_first_empty_page [OF d] unfolding r .
qed

text \<open>
  Claim C4, as stated: every response with status 403 and a remaining quota of zero makes
  the request sleep and retry. It fails on the code: such a response without the reset
  header is not retried. The request fails with the API error after one call of
  \<^verbatim>\<open>requests.get\<close> and no sleep.
\<close>

theorem rate_limit_without_reset_counterexample:
  "status_code limited_no_reset = 403
   \<and> ratelimit_remaining limited_no_reset = Some ''0''
   \<and> request_with_rate_limit (env_of (\<lambda>k. Got limited_no_reset)) octo_url 1 w0
       = Some (Inl (ApiError 403 ''rate limit exceeded''),
               \<lparr>requests_made = 1, events = [EvGet octo_url 1]\<rparr>)"
  by code_simp

text \<open>
  A reset time too far in the future: \<^verbatim>\<open>time.sleep\<close> raises \<^verbatim>\<open>OverflowError\<close>, and the
  request fails without a retry.
\<close>

lemma rate_limit_far_reset_raises:
  "request_with_rate_limit (env_of (\<lambda>k. Got limited_far_reset)) octo_url 1 w0
     = Some (Inl OverflowError, \<lparr>requests_made = 1, events = [EvGet octo_url 1]\<rparr>)"
  by code_simp

text \<open>
  Claim C4, amended. For a response with status 403, a remaining quota of \<open>0\<close> and a
  reset header that is an integer, when \<^verbatim>\<open>time.sleep\<close> accepts the wait of
  \<open>max 1 (reset - now + 2)\<close> seconds, the request sleeps that long and then continues as
  the same request (same URL, same page) from the world after the sleep. Every response
  with a status of 400 or more that is not a 403 with a remaining quota of \<open>0\<close> and an
  integer reset header makes the request fail, after that one call and with no sleep.
\<close>

theorem request_with_rate_limit_retries_or_fails:
  assumes "net env (requests_made w) = Got resp"
  shows "(status_code resp = 403 \<and> ratelimit_remaining resp = Some ''0'' \<and>
          ratelimit_reset resp = Some (IntText reset_epoch) \<and>
          sleep_accepted env (max 1 (reset_epoch - clock env (requests_made w) + 2)) \<longrightarrow>
            request_with_rate_limit env url page w
              = request_with_rate_limit env url page
                  (emit (EvSleep (max 1 (reset_epoch - clock env (requests_made w) + 2)))
                     (sent url page w)))
       \<and> (\<not> (status_code resp = 403 \<and> ratelimit_remaining resp = Some ''0'' \<and>
              (\<exists>t. ratelimit_reset resp = Some (IntText t))) \<and>
          400 \<le> status_code resp \<longrightarrow>
            (\<exists>e. request_with_rate_limit env url page w = Some (Inl e, sent url page w)))"
proof (intro conjI impI)
  assume "status_code resp = 403 \<and> ratelimit_remaining resp = Some ''0'' \<and>
          ratelimit_reset resp = Some (IntText reset_epoch) \<and>
          sleep_accepted env (max 1 (reset_epoch - clock env (requests_made w) + 2))"
  with assms show "request_with_rate_limit env url page w
              = request_with_rate_limit env url page
                  (emit (EvSleep (max 1 (reset_epoch - clock env (requests_made w) + 2)))
                     (sent url page w))"
    by (subst request_with_rate_limit.simps) (simp add: sent_def Let_def time_sleep_accepted)
next
  assume "\<not> (status_code resp = 403 \<and> ratelimit_remaining resp = Some ''0'' \<and>
              (\<exists>t. ratelimit_reset resp = Some (IntText t))) \<and>
          400 \<le> status_code resp"
  with assms show "\<exists>e. request_with_rate_limit env url page w = Some (Inl e, sent url page w)"
    by (subst request_with_rate_limit.simps)
       (auto simp: sent_def Let_def split: option.splits header_int.splits)
qed

theorem request_with_rate_limit_retries_or_fails_witness:
  "request_with_rate_limit (env_of answers_limited) octo_url 1 w0
     = Some (Inl (ApiError 500 ''oops''),
             \<lparr>requests_made = 2, events = [EvGet octo_url 1, EvSleep 12, EvGet octo_url 1]\<rparr>)"
proof -
  have n0: "net (env_of answers_limited) (requests_made w0) = Got limited_response"
    by code_simp
  have a: "sleep_accepted (env_of answers_limited)
             (max 1 (1000 - clock (env_of answers_limited) (requests_made w0) + 2))"
    by code_simp
  have s: "emit (EvSleep (max 1 (1000 - clock (env_of answers_limited) (requests_made w0) + 2)))
             (sent octo_url 1 w0)
           = \<lparr>requests_made = 1, events = [EvGet octo_url 1, EvSleep 12]\<rparr>"
    by code_simp
  have retry: "request_with_rate_limit (env_of answers_limited) octo_url 1 w0
          = request_with_rate_limit (env_of answers_limited) octo_url 1
              \<lparr>requests_made = 1, events = [EvGet octo_url 1, EvSleep 12]\<rparr>"
    using request_with_rate_limit_retries_or_fails [OF n0, of 1000 octo_url 1] a
    unfolding s by (simp add: limited_response_def)
  have n1: "net (env_of answers_limited)
              (requests_made \<lparr>requests_made = 1, events = [EvGet octo_url 1, EvSleep 12]\<rparr>)
            = Got server_error"
    by code_simp
  have t: "sent octo_url 1 \<lparr>requests_made = 1, events = [EvGet octo_url 1, EvSleep 12]\<rparr>
           = \<lparr>requests_made = 2, events = [EvGet octo_url 1, EvSleep 12, EvGet octo_url 1]\<rparr>"
    by code_simp
  have "\<exists>e. request_with_rate_limit (env_of answers_limited) octo_url 1
              \<lparr>requests_made = 1, events = [EvGet octo_url 1, EvSleep 12]\<rparr>
            = Some (Inl e, \<lparr>requests_made = 2,
                             events = [EvGet octo_url 1, EvSleep 12, EvGet octo_url 1]\<rparr>)"
    using request_with_rate_limit_retries_or_fails [OF n1, of 0 octo_url 1]
    unfolding t by (simp add: server_error_def)
  moreover have "request_with_rate_limit (env_of answers_limited) octo_url 1
              \<lparr>requests_made = 1, events = [EvGet octo_url 1, EvSleep 12]\<rparr>
            = Some (Inl (ApiError 500 ''oops''), \<lparr>requests_made = 2,
                             events = [EvGet octo_url 1, EvSleep 12, EvGet octo_url 1]\<rparr>)"
    by code_simp
  ultimately show ?thesis
    using retry by simp
qed

section \<open>Properties of \<^verbatim>\<open>main\<close>\<close>

text \<open>
  The clone loop runs to its end when \<^verbatim>\<open>time.sleep\<close> accepts the interval and no git
  command raises.
\<close>

lemma clone_loop_completes:
  assumes "sleep_accepted env (max MIN_CLONE_INTERVAL_SECONDS (arg_interval a))"
    and "\<And>idx url dest. git_clone env idx url dest \<noteq> RunRaises"
    and "\<And>idx dest. git_pull env idx dest \<noteq> RunRaises"
  shows "\<exists>n w'. clone_loop env a idx matched clones_done w = (Inr n, w')"
proof (induction matched arbitrary: idx clones_done w)
  case Nil
  then show ?case by simp
next
  case (Cons repo rest)
  have s: "\<And>w. throttle_sleep env (arg_interval a) w
                = Inr (emit (EvSleep (max MIN_CLONE_INTERVAL_SECONDS (arg_interval a))) w)"
    using assms(1) by (simp add: throttle_sleep_def time_sleep_accepted)
  obtain c where c: "git_clone env idx (ssh_url repo) (os_path_join (arg_dest a) (name repo))
                       = Exit c"
    using assms(2) by (cases "git_clone env idx (ssh_url repo)
                                (os_path_join (arg_dest a) (name repo))") auto
  obtain p where p: "git_pull env idx (os_path_join (arg_dest a) (name repo)) = Exit p"
    using assms(3) by (cases "git_pull env idx (os_path_join (arg_dest a) (name repo))") auto
  show ?case
    using Cons.IH by (simp add: Let_def s c p run_git_clone_def run_git_pull_def)
qed

text \<open>
  An interval that \<^verbatim>\<open>time.sleep\<close> does not accept: the sleep after the first clone raises
  \<^verbatim>\<open>OverflowError\<close>, which nothing catches, and the tool exits with status 1.
\<close>

lemma main_huge_interval_exits_1:
  "main (env_of answers_paged) (Parsed args_huge) w0
     = Some (1, \<lparr>requests_made = 4,
                  events = [EvMakedirs ''./repos'', EvGet octo_url 1, EvGet octo_url 2,
                            EvSleep 12, EvGet octo_url 2, EvGet octo_url 3,
                            EvGitClone ''git@github.com:octo/web.git'' ''./repos/web'']\<rparr>)"
  by code_simp

text \<open>
  Claim C8, as stated: for every interval below 10 the tool exits with status 2. It fails
  on the code: \<^verbatim>\<open>ensure_git_available\<close> runs first, and without git the tool exits with
  status 1 whatever the interval is.
\<close>

theorem main_without_git_counterexample:
  "arg_interval args_short < 10
   \<and> main env_no_git (Parsed args_short) w0 = Some (1, w0)"
  by code_simp

text \<open>
  Claim C8, amended. When git is installed: for every interval below 10 the tool exits
  with status 2 and the world is unchanged, so no request was sent and no command was
  run; for an interval of at least 10, once the destination directory is created, a failed
  listing makes the tool exit with status 1, and a listing that returns, followed by a
  filter whose pattern compiles and a clone loop that runs to its end, makes it exit with
  status 0. The clone loop runs to its end whenever \<^verbatim>\<open>time.sleep\<close> accepts the interval
  and no git command raises.
\<close>

theorem main_exit_codes:
  assumes "git_available env"
  shows "(arg_interval a < 10 \<longrightarrow> main env (Parsed a) w = Some (2, w))
       \<and> (10 \<le> arg_interval a \<and> makedirs_ok env \<longrightarrow>
            (\<forall>e w'. fetch_all_repos env (owner_of (arg_target a)) (is_org_of (arg_target a))
                       (emit (EvMakedirs (arg_dest a)) w) = Some (Inl e, w')
                     \<longrightarrow> main env (Parsed a) w = Some (1, w'))
          \<and> (\<forall>repos w' matched clones_done w''.
                fetch_all_repos env (owner_of (arg_target a)) (is_org_of (arg_target a))
                  (emit (EvMakedirs (arg_dest a)) w) = Some (Inr repos, w')
                \<and> filter_repos (re_engine env) repos (arg_match a) (arg_regex a)
                    (arg_include_archived a) True = Inr matched
                \<and> clone_loop env a 1 matched 0 w' = (Inr clones_done, w'')
                \<longrightarrow> main env (Parsed a) w = Some (0, w''))
          \<and> (\<forall>matched w'.
                sleep_accepted env (max 10 (arg_interval a))
                \<and> (\<forall>idx url dest. git_clone env idx url dest \<noteq> RunRaises)
                \<and> (\<forall>idx dest. git_pull env idx dest \<noteq> RunRaises)
                \<longrightarrow> (\<exists>clones_done w''.
                       clone_loop env a 1 matched 0 w' = (Inr clones_done, w''))))"
proof (intro conjI impI allI)
  assume "arg_interval a < 10"
  with assms show "main env (Parsed a) w = Some (2, w)"
    by (simp add: main_def MIN_CLONE_INTERVAL_SECONDS_def)
next
  fix e w'
  assume "10 \<le> arg_interval a \<and> makedirs_ok env"
    and "fetch_all_repos env (owner_of (arg_target a)) (is_org_of (arg_target a))
           (emit (EvMakedirs (arg_dest a)) w) = Some (Inl e, w')"
  with assms show "main env (Parsed a) w = Some (1, w')"
    by (simp add: main_def MIN_CLONE_INTERVAL_SECONDS_def Let_def)
next
  fix repos w' matched clones_done w''
  assume "10 \<le> arg_interval a \<and> makedirs_ok env"
    and "fetch_all_repos env (owner_of (arg_target a)) (is_org_of (arg_target a))
           (emit (EvMakedirs (arg_dest a)) w) = Some (Inr repos, w')
         \<and> filter_repos (re_engine env) repos (arg_match a) (arg_regex a)
             (arg_include_archived a) True = Inr matched
         \<and> clone_loop env a 1 matched 0 w' = (Inr clones_done, w'')"
  with assms show "main env (Parsed a) w = Some (0, w'')"
    by (simp add: main_def MIN_CLONE_INTERVAL_SECONDS_def Let_def)
next
  fix matched w'
  assume "sleep_accepted env (max 10 (arg_interval a))
          \<and> (\<forall>idx url dest. git_clone env idx url dest \<noteq> RunRaises)
          \<and> (\<forall>idx dest. git_pull env idx dest \<noteq> RunRaises)"
  then show "\<exists>clones_done w''. clone_loop env a 1 matched 0 w' = (Inr clones_done, w'')"
    using clone_loop_completes [of env a 1 matched 0 w']
    by (simp add: MIN_CLONE_INTERVAL_SECONDS_def)
qed

theorem main_exit_codes_witness:
  "main (env_of answers_paged) (Parsed args_short) w0 = Some (2, w0)
   \<and> main (env_of (\<lambda>k. Got server_error)) (Parsed args_ok) w0
       = Some (1, \<lparr>requests_made = 1, events = [EvMakedirs ''./repos'', EvGet octo_url 1]\<rparr>)
   \<and> main (env_of answers_paged) (Parsed args_ok) w0
       = Some (0, \<lparr>requests_made = 4,
                   events = [EvMakedirs ''./repos'', EvGet octo_url 1, EvGet octo_url 2,
                             EvSleep 12, EvGet octo_url 2, EvGet octo_url 3,
                             EvGitClone ''git@github.com:octo/web.git'' ''./repos/web'',
                             EvSleep 10]\<rparr>)"
proof (intro conjI)
  have g: "git_available (env_of answers_paged)"
    by (simp add: env_of_def)
  have i: "arg_interval args_short < 10"
    by (simp add: args_short_def args_ok_def)
  show "main (env_of answers_paged) (Parsed args_short) w0 = Some (2, w0)"
    using main_exit_codes [OF g, of args_short w0] i by simp
next
  have g: "git_available (env_of (\<lambda>k. Got server_error))"
    by (simp add: env_of_def)
  have i: "10 \<le> arg_interval args_ok \<and> makedirs_ok (env_of (\<lambda>k. Got server_error))"
    by (simp add: args_ok_def env_of_def)
  have f: "fetch_all_repos (env_of (\<lambda>k. Got server_error)) (owner_of (arg_target args_ok))
             (is_org_of (arg_target args_ok)) (emit (EvMakedirs (arg_dest args_ok)) w0)
           = Some (Inl (ApiError 500 ''oops''),
                   \<lparr>requests_made = 1, events = [EvMakedirs ''./repos'', EvGet octo_url 1]\<rparr>)"
    by code_simp
  show "main (env_of (\<lambda>k. Got server_error)) (Parsed args_ok) w0
       = Some (1, \<lparr>requests_made = 1, events = [EvMakedirs ''./repos'', EvGet octo_url 1]\<rparr>)"
    using main_exit_codes [OF g, of args_ok w0] i f by blast
next
  have g: "git_available (env_of answers_paged)"
    by (simp add: env_of_def)
  have i: "10 \<le> arg_interval args_ok \<and> makedirs_ok (env_of answers_paged)"
    by (simp add: args_ok_def env_of_def)
  have f: "fetch_all_repos (env_of answers_paged) (owner_of (arg_target args_ok))
             (is_org_of (arg_target args_ok)) (emit (EvMakedirs (arg_dest args_ok)) w0)
           = Some (Inr [repo_web, repo_unknown, repo_unknown],
                   \<lparr>requests_made = 4,
                      events = [EvMakedirs ''./repos'', EvGet octo_url 1, EvGet octo_url 2,
                                EvSleep 12, EvGet octo_url 2, EvGet octo_url 3]\<rparr>)"
    by code_simp
  have m: "filter_repos (re_engine (env_of answers_paged)) [repo_web, repo_unknown, repo_unknown]
             (arg_match args_ok) (arg_regex args_ok) (arg_include_archived args_ok) True
           = Inr [repo_web]"
    by code_simp
  have a: "sleep_accepted (env_of answers_paged) (max 10 (arg_interval args_ok))
           \<and> (\<forall>idx url dest. git_clone (env_of answers_paged) idx url dest \<noteq> RunRaises)
           \<and> (\<forall>idx dest. git_pull (env_of answers_paged) idx dest \<noteq> RunRaises)"
    by (simp add: sleep_accepted_def SLEEP_MAX_def env_of_def args_ok_def)
  have c: "clone_loop (env_of answers_paged) args_ok 1 [repo_web] 0
                  \<lparr>requests_made = 4,
                      events = [EvMakedirs ''./repos'', EvGet octo_url 1, EvGet octo_url 2,
                                EvSleep 12, EvGet octo_url 2, EvGet octo_url 3]\<rparr>
           = (Inr 1, \<lparr>requests_made = 4,
                   events = [EvMakedirs ''./repos'', EvGet octo_url 1, EvGet octo_url 2,
                             EvSleep 12, EvGet octo_url 2, EvGet octo_url 3,
                             EvGitClone ''git@github.com:octo/web.git'' ''./repos/web'',
                             EvSleep 10]\<rparr>)"
    by code_simp
  note t = main_exit_codes [OF g, of args_ok w0]
  from t i a have "\<exists>clones_done w''.
      clone_loop (env_of answers_paged) args_ok 1 [repo_web] 0
        \<lparr>requests_made = 4,
           events = [EvMakedirs ''./repos'', EvGet octo_url 1, EvGet octo_url 2,
                     EvSleep 12, EvGet octo_url 2, EvGet octo_url 3]\<rparr> = (Inr clones_done, w'')"
    by blast
  from t i f m c
  show "main (env_of answers_paged) (Parsed args_ok) w0
       = Some (0, \<lparr>requests_made = 4,
                   events = [EvMakedirs ''./repos'', EvGet octo_url 1, EvGet octo_url 2,
                             EvSleep 12, EvGet octo_url 2, EvGet octo_url 3,
                             EvGitClone ''git@github.com:octo/web.git'' ''./repos/web'',
                             EvSleep 10]\<rparr>)"
    by blast
qed

end
